theory Spec2Isabelle
  imports Complex_Main
begin

section \<open>PyChrometrics: psychrometric property functions and the wet-bulb solver\<close>

text \<open>
  The notebook computes with Python floats wrapped in \<open>pint\<close> quantities. The embedding
  reads every float as a real number and every float operation as the exact operation
  on reals, so rounding, infinities, NaN and the \<open>OverflowError\<close> of a float power or
  of \<open>math.exp\<close> are outside the model: no statement below is about them. What Python
  raises in exact arithmetic is a value of the type \<open>error\<close>: a float division by zero raises \<open>ZeroDivisionError\<close>,
  \<open>math.log\<close> of a non-positive number raises \<open>ValueError\<close>, and reading a
  module-level name that is not bound raises \<open>NameError\<close>.
\<close>

datatype error = ZeroDivisionError | ValueError | NameError

definition py_div :: "real \<Rightarrow> real \<Rightarrow> error + real" where
  "py_div a b = (if b = 0 then Inl ZeroDivisionError else Inr (a / b))"

definition py_log :: "real \<Rightarrow> error + real" where
  "py_log x = (if x \<le> 0 then Inl ValueError else Inr (ln x))"

subsection \<open>Unit conversions of the default pint registry\<close>

text \<open>
  \<open>pint\<close> is an external library. Its conversions are affine maps with the constants of
  its default registry: the pound is 0.45359237 kg, standard gravity 9.80665 m/s/s, the
  inch 0.0254 m, the Btu 1055.056 J, and a Fahrenheit degree is 5/9 kelvin with zero at
  459.67 degrees Rankine. With these constants the model reproduces the outputs recorded
  in the notebook.
\<close>

definition degF_to_degC :: "real \<Rightarrow> real" where
  "degF_to_degC t = (t - 32) * 5 / 9"

definition degF_to_K :: "real \<Rightarrow> real" where
  "degF_to_K t = (t + 459.67) * 5 / 9"

definition psi_in_Pa :: real where
  "psi_in_Pa = 0.45359237 * 9.80665 / (0.0254 * 0.0254)"

definition Pa_to_psi :: "real \<Rightarrow> real" where
  "Pa_to_psi p = p / psi_in_Pa"

definition kJ_kgK_to_Btu_lbF :: "real \<Rightarrow> real" where
  "kJ_kgK_to_Btu_lbF c = c * (1000 * 0.45359237 * (5 / 9) / 1055.056)"

subsection \<open>Specific heats\<close>

definition Cp_water :: "real \<Rightarrow> real" where
  "Cp_water T_wb =
     (let t = degF_to_degC T_wb
      in kJ_kgK_to_Btu_lbF ((0.0265 * t ^ 2 - 1.7688 * t + 4205.6) * 0.001))"

definition Cp_vapor :: "real \<Rightarrow> real" where
  "Cp_vapor T_db =
     (let t = degF_to_degC T_db
      in kJ_kgK_to_Btu_lbF ((0.0016 * t ^ 2 + 0.1546 * t + 1858.7) * 0.001))"

definition Cp_dry_air :: "real \<Rightarrow> real \<Rightarrow> real" where
  "Cp_dry_air T_db T_wb =
     (let tw = degF_to_degC T_wb; td = degF_to_degC T_db
      in kJ_kgK_to_Btu_lbF ((0.0667 * (td + tw) / 2 + 1005) * 0.001))"

subsection \<open>Saturation pressure (Hyland-Wexler)\<close>

definition P_ice_sat :: "real \<Rightarrow> error + real" where
  "P_ice_sat T_db =
     (let T = degF_to_K T_db in
      case py_div (-5674.5359) T of
        Inl e \<Rightarrow> Inl e
      | Inr q \<Rightarrow>
          (case py_log T of
             Inl e \<Rightarrow> Inl e
           | Inr l \<Rightarrow>
               Inr (Pa_to_psi (exp (q + 6.3925247 + (-0.009677843) * T
                      + 0.00000062215701 * T ^ 2 + 0.0000000020747825 * T ^ 3
                      + (-0.00000000000094840240) * T ^ 4 + 4.1635019 * l)))))"

definition P_w_sat :: "real \<Rightarrow> error + real" where
  "P_w_sat T_db =
     (let T = degF_to_K T_db in
      case py_div (-5800.2206) T of
        Inl e \<Rightarrow> Inl e
      | Inr q \<Rightarrow>
          (case py_log T of
             Inl e \<Rightarrow> Inl e
           | Inr l \<Rightarrow>
               Inr (Pa_to_psi (exp (q + 1.3914994 + (-0.048640239) * T
                      + 0.000041764768 * T ^ 2 + (-0.000000014452093) * T ^ 3
                      + 6.5459673 * l)))))"

definition P_v_sat :: "real \<Rightarrow> error + real" where
  "P_v_sat T_db = (if T_db < 32 then P_ice_sat T_db else P_w_sat T_db)"

subsection \<open>Humidity ratios\<close>

definition Patm :: real where
  "Patm = 14.696"

definition MMR :: real where
  "MMR = 0.62198"

definition W_sat :: "real \<Rightarrow> error + real" where
  "W_sat T_db =
     (case P_v_sat T_db of
        Inl e \<Rightarrow> Inl e
      | Inr Pws \<Rightarrow> py_div (MMR * Pws) (Patm - Pws))"

definition W :: "real \<Rightarrow> real \<Rightarrow> error + real" where
  "W T_db RH =
     (case P_w_sat T_db of
        Inl e \<Rightarrow> Inl e
      | Inr Pws \<Rightarrow> py_div (MMR * (Pws * RH)) (Patm - Pws * RH))"

definition h_fg :: real where
  "h_fg = 1069.9"

definition W0 :: "real \<Rightarrow> real \<Rightarrow> error + real" where
  "W0 Tdb Twb =
     (let Cp_w = Cp_water Twb; Cp_v = Cp_vapor Tdb; Cp_da = Cp_dry_air Tdb Twb in
      case W_sat Twb of
        Inl e \<Rightarrow> Inl e
      | Inr Ws_wb \<Rightarrow>
          py_div ((h_fg - (Cp_w - Cp_v) * Twb) * Ws_wb - Cp_da * (Tdb - Twb))
                 (h_fg + Cp_v * Tdb - Cp_w * Twb))"

text \<open>
  \<open>W1\<close> has the parameters \<open>T_db\<close> and \<open>T_wb\<close>, but its body calls \<open>W_sat(Twb)\<close>:
  \<open>Twb\<close> is not a parameter, so Python looks it up among the module's globals when the
  call runs. The record \<open>globals\<close> holds that binding (\<open>None\<close> while the name is unbound).
\<close>

record globals =
  Twb :: "real option"

definition W1 :: "globals \<Rightarrow> real \<Rightarrow> real \<Rightarrow> error + real" where
  "W1 g T_db T_wb =
     (let Cp_da = 0.240; Cp_w = 0.999; Cp_v = 0.451 in
      case Twb g of
        None \<Rightarrow> Inl NameError
      | Some t \<Rightarrow>
          (case W_sat t of
             Inl e \<Rightarrow> Inl e
           | Inr Ws_wb \<Rightarrow>
               py_div ((h_fg - (Cp_w - Cp_v) * T_wb) * Ws_wb - Cp_da * (T_db - T_wb))
                      (h_fg + Cp_v * T_db - Cp_w * T_wb)))"

subsection \<open>The wet-bulb solver\<close>

definition epsilon :: real where
  "epsilon = 0.000001"

definition deltaW :: "real \<Rightarrow> real \<Rightarrow> error + real" where
  "deltaW w w0 =
     (case py_div \<bar>w - w0\<bar> w of Inl e \<Rightarrow> Inl e | Inr q \<Rightarrow> Inr (q / 100))"

text \<open>
  The factor of the statement
  \<^verbatim>\<open>T_wbm *= 1 - deltaW() if abs(_W0.m - _W.m) > 0 else 1 + deltaW()\<close>:
  Python evaluates the condition first and then only the chosen operand.
\<close>

definition step_factor :: "real \<Rightarrow> real \<Rightarrow> error + real" where
  "step_factor w w0 =
     (if \<bar>w0 - w\<bar> > 0
      then (case deltaW w w0 of Inl e \<Rightarrow> Inl e | Inr d \<Rightarrow> Inr (1 - d))
      else (case deltaW w w0 of Inl e \<Rightarrow> Inl e | Inr d \<Rightarrow> Inr (1 + d)))"

text \<open>
  The \<open>while\<close> loop has no bound on its iterations, so it is a partial function:
  \<open>None\<close> is a run that never returns, \<open>Some (Inl e)\<close> a run that raises \<open>e\<close>,
  \<open>Some (Inr t)\<close> a run that returns \<open>t\<close> degrees Fahrenheit.
\<close>

partial_function (option) T_wb_loop :: "real \<Rightarrow> real \<Rightarrow> real \<Rightarrow> real \<Rightarrow> (error + real) option" where
  "T_wb_loop T_db w T_wbm w0 =
     (if \<bar>w0 - w\<bar> > epsilon then
        (case step_factor w w0 of
           Inl e \<Rightarrow> Some (Inl e)
         | Inr k \<Rightarrow>
             (case W0 T_db (T_wbm * k) of
                Inl e \<Rightarrow> Some (Inl e)
              | Inr w0' \<Rightarrow> T_wb_loop T_db w (T_wbm * k) w0'))
      else Some (Inr T_wbm))"

definition T_wb_iter :: "real \<Rightarrow> real \<Rightarrow> (error + real) option" where
  "T_wb_iter T_db RH =
     (case W T_db RH of
        Inl e \<Rightarrow> Some (Inl e)
      | Inr w \<Rightarrow>
          (case W0 T_db T_db of
             Inl e \<Rightarrow> Some (Inl e)
           | Inr w0 \<Rightarrow> T_wb_loop T_db w T_db w0))"

subsection \<open>The solver and the constant-cp estimate in the words of the specification\<close>

text \<open>
  The specification names the functions \<open>W\<close>, \<open>W0\<close> and \<open>W_sat\<close>
  \<open>actual_humidity_ratio\<close>, \<open>estimate_humidity_ratio_variable_cp\<close> and
  \<open>saturated_humidity_ratio\<close>. The two definitions below follow its section on the
  wet-bulb solver sentence by sentence, not the source: the residual is written
  \<open>\<bar>W_target - W_est\<bar>\<close> throughout and \<open>delta\<close> is computed before the branch is
  chosen. Its quotient is read as Python's float division.
\<close>

abbreviation actual_humidity_ratio :: "real \<Rightarrow> real \<Rightarrow> error + real" where
  "actual_humidity_ratio \<equiv> W"

abbreviation estimate_humidity_ratio_variable_cp :: "real \<Rightarrow> real \<Rightarrow> error + real" where
  "estimate_humidity_ratio_variable_cp \<equiv> W0"

abbreviation saturated_humidity_ratio :: "real \<Rightarrow> error + real" where
  "saturated_humidity_ratio \<equiv> W_sat"

partial_function (option) solve_wet_bulb_loop ::
    "real \<Rightarrow> real \<Rightarrow> real \<Rightarrow> real \<Rightarrow> (error + real) option" where
  "solve_wet_bulb_loop T_db W_target T_wb_trial W_est =
     (if \<bar>W_target - W_est\<bar> > epsilon then
        (case py_div \<bar>W_target - W_est\<bar> W_target of
           Inl e \<Rightarrow> Some (Inl e)
         | Inr q \<Rightarrow>
             (let delta = q / 100;
                  T_wb_trial' = (if \<bar>W_target - W_est\<bar> > 0
                                 then T_wb_trial * (1 - delta)
                                 else T_wb_trial * (1 + delta))
              in case estimate_humidity_ratio_variable_cp T_db T_wb_trial' of
                   Inl e \<Rightarrow> Some (Inl e)
                 | Inr W_est' \<Rightarrow> solve_wet_bulb_loop T_db W_target T_wb_trial' W_est'))
      else Some (Inr T_wb_trial))"

definition solve_wet_bulb :: "real \<Rightarrow> real \<Rightarrow> (error + real) option" where
  "solve_wet_bulb T_db RH =
     (case actual_humidity_ratio T_db RH of
        Inl e \<Rightarrow> Some (Inl e)
      | Inr W_target \<Rightarrow>
          (case estimate_humidity_ratio_variable_cp T_db T_db of
             Inl e \<Rightarrow> Some (Inl e)
           | Inr W_est \<Rightarrow> solve_wet_bulb_loop T_db W_target T_db W_est))"

text \<open>
  The constant-cp estimate as the specification describes it: the structure of the
  variable-cp estimate with 0.240, 0.999 and 0.451 for the specific heats, the saturated
  humidity ratio taken at the wet-bulb argument.
\<close>

definition estimate_humidity_ratio_constant_cp :: "real \<Rightarrow> real \<Rightarrow> error + real" where
  "estimate_humidity_ratio_constant_cp T_db T_wb =
     (case saturated_humidity_ratio T_wb of
        Inl e \<Rightarrow> Inl e
      | Inr Ws \<Rightarrow>
          py_div ((h_fg - (0.999 - 0.451) * T_wb) * Ws - 0.240 * (T_db - T_wb))
                 (h_fg + 0.451 * T_db - 0.999 * T_wb))"

subsection \<open>Auxiliary definitions used in the proofs\<close>

text \<open>
  The exponent of the two correlations as a function of the absolute temperature, for
  temperatures above 0 K, where neither the division nor the logarithm raises.
\<close>

definition ln_P_w :: "real \<Rightarrow> real" where
  "ln_P_w T = (-5800.2206) / T + 1.3914994 + (-0.048640239) * T
                + 0.000041764768 * T ^ 2 + (-0.000000014452093) * T ^ 3
                + 6.5459673 * ln T"

definition ln_P_ice :: "real \<Rightarrow> real" where
  "ln_P_ice T = (-5674.5359) / T + 6.3925247 + (-0.009677843) * T
                  + 0.00000062215701 * T ^ 2 + 0.0000000020747825 * T ^ 3
                  + (-0.00000000000094840240) * T ^ 4 + 4.1635019 * ln T"

section \<open>Basic facts\<close>

lemma epsilon_pos: "0 < epsilon"
  by (simp add: epsilon_def)

lemma psi_bounds: "6894 \<le> psi_in_Pa" "psi_in_Pa \<le> 6895"
  by (simp_all add: psi_in_Pa_def)

lemma P_w_sat_pos:
  "0 < degF_to_K T \<Longrightarrow> P_w_sat T = Inr (Pa_to_psi (exp (ln_P_w (degF_to_K T))))"
  by (simp add: P_w_sat_def py_div_def py_log_def ln_P_w_def Let_def)

lemma P_ice_sat_pos:
  "0 < degF_to_K T \<Longrightarrow> P_ice_sat T = Inr (Pa_to_psi (exp (ln_P_ice (degF_to_K T))))"
  by (simp add: P_ice_sat_def py_div_def py_log_def ln_P_ice_def Let_def)

lemma P_v_sat_Inr_K_pos: "P_v_sat T = Inr p \<Longrightarrow> 0 < degF_to_K T"
  by (auto simp: P_v_sat_def P_ice_sat_def P_w_sat_def py_div_def py_log_def Let_def
      split: if_splits sum.splits)

lemma W0_Inr_K_pos: "W0 T T' = Inr w0 \<Longrightarrow> 0 < degF_to_K T'"
  by (auto simp: W0_def W_sat_def Let_def split: sum.splits dest: P_v_sat_Inr_K_pos)

lemma W_RH_zero: "0 < degF_to_K T \<Longrightarrow> W T 0 = Inr 0"
  by (simp add: W_def P_w_sat_pos py_div_def Patm_def)

subsection \<open>Bounds on the exponential and the logarithm\<close>

lemma exp_1_ge: "(2.64::real) \<le> exp 1"
proof -
  have "(1 + 1/2 + (1/2)^2 / 2 :: real) \<le> exp (1/2)"
    by (rule exp_lower_Taylor_quadratic) simp
  then have a: "(1.625::real) \<le> exp (1/2)" by (simp add: power2_eq_square)
  have "exp (1::real) = exp (1/2) * exp (1/2)" by (simp flip: exp_add)
  moreover have "1.625 * 1.625 \<le> exp (1/2) * exp (1/2 :: real)"
    using a by (intro mult_mono) auto
  ultimately show ?thesis by simp
qed

lemma exp_nat_le: "exp (real n) \<le> 3 ^ n"
proof -
  have "exp (real n) = exp 1 ^ n" using exp_of_nat_mult [of n "1::real"] by simp
  also have "\<dots> \<le> 3 ^ n" by (rule power_mono) (use exp_le in auto)
  finally show ?thesis .
qed

lemma exp_nat_ge: "2.64 ^ n \<le> exp (real n)"
proof -
  have "exp (real n) = exp 1 ^ n" using exp_of_nat_mult [of n "1::real"] by simp
  moreover have "2.64 ^ n \<le> exp (1::real) ^ n" by (rule power_mono) (use exp_1_ge in auto)
  ultimately show ?thesis by simp
qed

lemma exp_6_le: "exp (6::real) \<le> 480"
proof -
  have "exp (1/16 :: real) \<le> 1 + 1/16 + (1/16)^2" by (rule exp_bound) auto
  then have a: "exp (1/16 :: real) \<le> 273/256" by (simp add: power2_eq_square)
  have "exp (6::real) = exp (1/16) ^ 96" using exp_of_nat_mult [of 96 "1/16::real"] by simp
  also have "\<dots> \<le> (273/256) ^ 96" by (rule power_mono) (use a in auto)
  also have "\<dots> \<le> (480::real)" by (simp add: power_divide)
  finally show ?thesis .
qed

lemma ln_5_6:
  assumes "243 \<le> x" "x \<le> 338"
  shows "5 \<le> ln (x::real)" "ln x \<le> 6"
proof -
  have pos: "0 < x" using assms by simp
  have "exp (5::real) \<le> x" using exp_nat_le [of 5] assms by simp
  then show "5 \<le> ln x" using pos by (simp add: ln_ge_iff)
  have "(338::real) \<le> 2.64 ^ 6" by (simp add: power_divide)
  then have "x \<le> exp 6" using exp_nat_ge [of 6] assms by simp
  then have "ln x \<le> ln (exp 6)" using pos by (subst ln_le_cancel_iff) auto
  then show "ln x \<le> 6" by simp
qed

lemma ln_500: "6 \<le> ln (500::real)"
  using exp_6_le by (simp add: ln_ge_iff)

lemma Pa_to_psi_exp_bounds:
  assumes "0 \<le> y" "y \<le> 10"
  shows "0.0001 \<le> Pa_to_psi (exp y)" "Pa_to_psi (exp y) \<le> 9"
proof -
  define e where "e = exp y"
  have "exp y \<le> exp 10" using assms by simp
  also have "\<dots> \<le> 3 ^ 10" using exp_nat_le [of 10] by simp
  finally have up: "e \<le> 59049" by (simp add: e_def)
  have lo: "1 \<le> e" using assms by (simp add: e_def)
  show "0.0001 \<le> Pa_to_psi (exp y)"
    using lo psi_bounds unfolding Pa_to_psi_def e_def [symmetric] by (simp add: field_simps)
  show "Pa_to_psi (exp y) \<le> 9"
    using up psi_bounds unfolding Pa_to_psi_def e_def [symmetric] by (simp add: field_simps)
qed

lemma Pa_to_psi_exp_le:
  assumes "y \<le> 10"
  shows "Pa_to_psi (exp y) \<le> 9"
proof -
  define e where "e = exp y"
  have "exp y \<le> exp 10" using assms by simp
  also have "\<dots> \<le> 3 ^ 10" using exp_nat_le [of 10] by simp
  finally have up: "e \<le> 59049" by (simp add: e_def)
  show ?thesis
    using up psi_bounds unfolding Pa_to_psi_def e_def [symmetric] by (simp add: field_simps)
qed

lemma Pa_to_psi_pos: "0 < Pa_to_psi (exp y)"
  by (simp add: Pa_to_psi_def psi_in_Pa_def)

lemma Pa_to_psi_exp_12:
  assumes "12 \<le> y"
  shows "Patm < Pa_to_psi (exp y)"
proof -
  define e where "e = exp y"
  have "(102000::real) \<le> 2.64 ^ 12" by (simp add: power_divide)
  then have "102000 \<le> exp (12::real)" using exp_nat_ge [of 12] by simp
  also have "\<dots> \<le> exp y" using assms by simp
  finally have "102000 \<le> e" by (simp add: e_def)
  then show ?thesis
    using psi_bounds unfolding Pa_to_psi_def e_def [symmetric]
    by (simp add: Patm_def field_simps)
qed

lemma Pa_to_psi_strict_mono: "x < y \<Longrightarrow> Pa_to_psi (exp x) < Pa_to_psi (exp y)"
  by (simp add: Pa_to_psi_def psi_in_Pa_def divide_strict_right_mono)

subsection \<open>The correlations at the temperatures of the examples\<close>

text \<open>
  62.33 F is 290 K, 440.33 F is 500 K, and 0 F is 45967/180 K.
\<close>

lemma ln_P_w_290: "0 \<le> ln_P_w 290" "ln_P_w 290 \<le> 10"
  using ln_5_6 [of 290] by (simp_all add: ln_P_w_def)

lemma ln_P_w_500: "12 \<le> ln_P_w 500"
  using ln_500 by (simp add: ln_P_w_def)

lemma ln_P_w_0F: "ln_P_w (45967/180) \<le> 10"
  using ln_5_6 [of "45967/180"] by (simp add: ln_P_w_def power_divide)

lemma ln_P_ice_0F: "0 \<le> ln_P_ice (45967/180)" "ln_P_ice (45967/180) \<le> 10"
  using ln_5_6 [of "45967/180"] by (simp_all add: ln_P_ice_def power_divide)

lemma P_w_sat_0F: "P_w_sat 0 = Inr (Pa_to_psi (exp (ln_P_w (45967/180))))"
  using P_w_sat_pos [of 0] by (simp add: degF_to_K_def)

lemma P_w_0F_le: "Pa_to_psi (exp (ln_P_w (45967/180))) \<le> 9"
  using ln_P_w_0F by (rule Pa_to_psi_exp_le)

lemma ln_P_w_50F: "ln_P_w (5663/20) \<le> 10"
  using ln_5_6 [of "5663/20"] by (simp add: ln_P_w_def power_divide)

lemma P_v_sat_44033: "P_v_sat 440.33 = Inr (Pa_to_psi (exp (ln_P_w 500)))"
  using P_w_sat_pos [of "440.33"] by (simp add: P_v_sat_def degF_to_K_def)

lemma P_44033_gt: "Patm < Pa_to_psi (exp (ln_P_w 500))"
  by (rule Pa_to_psi_exp_12 [OF ln_P_w_500])

lemma W_sat_value_gt:
  assumes "0.0001 \<le> p" "p \<le> 9"
  shows "0.000004 < MMR * p / (Patm - p)"
proof -
  have "0.000004 * (Patm - p) < MMR * p" using assms by (simp add: MMR_def Patm_def)
  moreover have "0 < Patm - p" using assms by (simp add: Patm_def)
  ultimately show ?thesis by (simp add: pos_less_divide_eq)
qed

lemma W_sat_0F:
  "W_sat 0 = Inr (MMR * Pa_to_psi (exp (ln_P_ice (45967/180)))
                  / (Patm - Pa_to_psi (exp (ln_P_ice (45967/180)))))"
proof -
  have "P_v_sat 0 = Inr (Pa_to_psi (exp (ln_P_ice (45967/180))))"
    using P_ice_sat_pos [of 0] by (simp add: P_v_sat_def degF_to_K_def)
  moreover have "Pa_to_psi (exp (ln_P_ice (45967/180))) \<le> 9"
    using Pa_to_psi_exp_bounds(2) [OF ln_P_ice_0F] .
  ultimately show ?thesis by (simp add: W_sat_def py_div_def Patm_def)
qed

lemma W_sat_6233:
  "W_sat 62.33 = Inr (MMR * Pa_to_psi (exp (ln_P_w 290)) / (Patm - Pa_to_psi (exp (ln_P_w 290))))"
proof -
  have "P_v_sat 62.33 = Inr (Pa_to_psi (exp (ln_P_w 290)))"
    using P_w_sat_pos [of "62.33"] by (simp add: P_v_sat_def degF_to_K_def)
  moreover have "Pa_to_psi (exp (ln_P_w 290)) \<le> 9"
    using Pa_to_psi_exp_bounds(2) [OF ln_P_w_290] .
  ultimately show ?thesis by (simp add: W_sat_def py_div_def Patm_def)
qed

section \<open>Saturation pressure\<close>

text \<open>
  Claim C4. \<open>P_v_sat\<close> takes the ice correlation exactly when the Fahrenheit
  temperature is strictly below 32 and the water correlation otherwise; 31.9 F is
  on the ice side and 32.1 F on the water side.
\<close>

theorem P_v_sat_dispatch:
  "(T_db < 32 \<longrightarrow> P_v_sat T_db = P_ice_sat T_db) \<and>
   (\<not> T_db < 32 \<longrightarrow> P_v_sat T_db = P_w_sat T_db) \<and>
   P_v_sat 31.9 = P_ice_sat 31.9 \<and> P_v_sat 32.1 = P_w_sat 32.1"
  by (simp add: P_v_sat_def)

theorem P_v_sat_dispatch_witness:
  "(31::real) < 32 \<and> P_v_sat 31 = P_ice_sat 31 \<and>
   \<not> (32::real) < 32 \<and> P_v_sat 32 = P_w_sat 32"
  using P_v_sat_dispatch [of 31] P_v_sat_dispatch [of 32] by simp

subsection \<open>Monotonicity of the exponent of the water correlation\<close>

text \<open>
  A fact of the real-valued exponent, between 277 K and 311 K. It separates the saturated
  humidity ratios at 45 F and at 50 F further down; it says nothing about neighbouring
  floats.
\<close>

lemma ln_P_w_combination:
  fixes a1 a2 s1 s2 c1 c2 l1 l2 d T1 T2 :: real
  assumes "0.0599 * d \<le> a2 - a1" and "s1 \<le> s2" and "c2 - c1 \<le> 290163 * d"
    and "l1 < l2" and "0 < d" and "T2 = T1 + d"
  shows "a1 + 1.3914994 + (-0.048640239) * T1 + 0.000041764768 * s1
           + (-0.000000014452093) * c1 + 6.5459673 * l1
         < a2 + 1.3914994 + (-0.048640239) * T2 + 0.000041764768 * s2
           + (-0.000000014452093) * c2 + 6.5459673 * l2"
  using assms by simp argo

lemma ln_P_w_strict_mono:
  assumes "277 \<le> T1" and "T1 < T2" and "T2 \<le> 311"
  shows "ln_P_w T1 < ln_P_w T2"
proof -
  define d where "d = T2 - T1"
  have d: "0 < d" using assms by (simp add: d_def)
  have pos: "0 < T1" "0 < T2" using assms by simp_all
  have prod: "T1 * T2 \<le> 311 * 311" using assms by (intro mult_mono) auto
  have sq1: "T1 * T1 \<le> 311 * 311" using assms by (intro mult_mono) auto
  have sq2: "T2 * T2 \<le> 311 * 311" using assms by (intro mult_mono) auto
  have "5800.2206 * d / (311 * 311) \<le> 5800.2206 * d / (T1 * T2)"
    using d pos prod by (intro divide_left_mono) auto
  moreover have "5800.2206 * d / (T1 * T2) = (-5800.2206) / T2 - (-5800.2206) / T1"
    using pos by (simp add: d_def field_simps)
  moreover have "0.0599 * d \<le> 5800.2206 * d / (311 * 311)" using d by simp
  ultimately have h1: "0.0599 * d \<le> (-5800.2206) / T2 - (-5800.2206) / T1" by linarith
  have h3: "T1 ^ 2 \<le> T2 ^ 2" using assms by (intro power_mono) auto
  have "T2 ^ 3 - T1 ^ 3 = d * (T2 * T2 + T1 * T2 + T1 * T1)"
    by (simp add: d_def algebra_simps power3_eq_cube)
  also have "\<dots> \<le> d * (3 * (311 * 311))"
    using d prod sq1 sq2 by (intro mult_left_mono) auto
  finally have h4: "T2 ^ 3 - T1 ^ 3 \<le> 290163 * d" by simp
  have h5: "ln T1 < ln T2" using assms pos by simp
  have h2: "T2 = T1 + d" by (simp add: d_def)
  show ?thesis
    unfolding ln_P_w_def by (rule ln_P_w_combination [OF h1 h3 h4 h5 d h2])
qed

lemma P_w_sat_strict_mono_aux:
  assumes "40 \<le> T1" and "T1 < T2" and "T2 \<le> 100"
  shows "Pa_to_psi (exp (ln_P_w (degF_to_K T1))) < Pa_to_psi (exp (ln_P_w (degF_to_K T2)))"
proof -
  have "ln_P_w (degF_to_K T1) < ln_P_w (degF_to_K T2)"
    using assms by (intro ln_P_w_strict_mono) (simp_all add: degF_to_K_def)
  then show ?thesis by (rule Pa_to_psi_strict_mono)
qed

section \<open>Humidity ratios\<close>

text \<open>
  Claim C5. For every dry-bulb temperature, also below 32 F, and every relative humidity,
  \<open>W\<close> is 0.62198 (Pws RH) / (14.696 - Pws RH) with \<open>Pws\<close> the pressure returned by the
  water correlation \<open>P_w_sat\<close>, wherever that quotient is defined; \<open>W_sat\<close>, unlike it,
  takes its pressure from the dispatch, which is the ice correlation below 32 F.
\<close>

theorem W_water_branch:
  assumes "P_w_sat T_db = Inr Pws" and "14.696 - Pws * RH \<noteq> 0"
  shows "W T_db RH = Inr (0.62198 * (Pws * RH) / (14.696 - Pws * RH)) \<and>
         W_sat T_db = (case (if T_db < 32 then P_ice_sat T_db else P_w_sat T_db) of
                         Inl e \<Rightarrow> Inl e
                       | Inr Pvs \<Rightarrow> py_div (0.62198 * Pvs) (14.696 - Pvs))"
  using assms
  by (simp add: W_def W_sat_def P_v_sat_def py_div_def Patm_def MMR_def split: sum.splits)

theorem W_water_branch_witness:
  "P_w_sat 0 = Inr (Pa_to_psi (exp (ln_P_w (45967/180)))) \<and>
   14.696 - Pa_to_psi (exp (ln_P_w (45967/180))) * 0.5 \<noteq> 0 \<and>
   W 0 0.5 = Inr (0.62198 * (Pa_to_psi (exp (ln_P_w (45967/180))) * 0.5)
                   / (14.696 - Pa_to_psi (exp (ln_P_w (45967/180))) * 0.5)) \<and>
   W_sat 0 = Inr (0.62198 * Pa_to_psi (exp (ln_P_ice (45967/180)))
                   / (14.696 - Pa_to_psi (exp (ln_P_ice (45967/180)))))"
proof -
  have d: "14.696 - Pa_to_psi (exp (ln_P_w (45967/180))) * 0.5 \<noteq> 0"
    using P_w_0F_le by simp
  show ?thesis
    using W_water_branch [OF P_w_sat_0F d] P_w_sat_0F d W_sat_0F
    by (simp add: MMR_def Patm_def)
qed

subsection \<open>Saturation pressure at or above atmospheric pressure\<close>

lemma W_sat_above_Patm:
  assumes "P_v_sat T_db = Inr Pws" and "Patm < Pws"
  shows "W_sat T_db = Inr (MMR * Pws / (Patm - Pws))" and "MMR * Pws / (Patm - Pws) < 0"
proof -
  show "W_sat T_db = Inr (MMR * Pws / (Patm - Pws))"
    using assms by (simp add: W_sat_def py_div_def)
  have "0 < Pws" using assms by (simp add: Patm_def)
  then have "0 < MMR * Pws" by (simp add: MMR_def)
  then show "MMR * Pws / (Patm - Pws) < 0"
    using assms by (simp add: divide_pos_neg)
qed

text \<open>
  Claim C7 says that \<open>W_sat\<close> fails once the saturation pressure reaches atmospheric
  pressure. At 440.33 F (500 K) the saturation pressure is above 14.696 psi, and \<open>W_sat\<close>
  raises nothing: it returns a negative humidity ratio.
\<close>

theorem W_sat_limit_counterexample:
  "\<not> isl (P_v_sat 440.33) \<and> Patm \<le> projr (P_v_sat 440.33) \<and>
   \<not> isl (W_sat 440.33) \<and> projr (W_sat 440.33) < 0"
  using W_sat_above_Patm [OF P_v_sat_44033 P_44033_gt] P_44033_gt P_v_sat_44033
  by simp

text \<open>
  Claim C7, as the code has it. With a saturation pressure \<open>Pws\<close> at or above atmospheric
  pressure, \<open>W_sat\<close> raises Python's \<open>ZeroDivisionError\<close> when \<open>Pws\<close> equals 14.696 psi
  exactly, and otherwise returns the negative number 0.62198 Pws / (14.696 - Pws).
\<close>

theorem W_sat_at_or_above_Patm:
  assumes "P_v_sat T_db = Inr Pws" and "Patm \<le> Pws"
  shows "(Pws = Patm \<and> W_sat T_db = Inl ZeroDivisionError) \<or>
         (Patm < Pws \<and> W_sat T_db = Inr (0.62198 * Pws / (14.696 - Pws))
            \<and> 0.62198 * Pws / (14.696 - Pws) < 0)"
proof (cases "Pws = Patm")
  case True
  then show ?thesis using assms by (simp add: W_sat_def py_div_def)
next
  case False
  then have "Patm < Pws" using assms by simp
  then show ?thesis
    using W_sat_above_Patm [OF assms(1)] by (simp add: MMR_def Patm_def)
qed

theorem W_sat_at_or_above_Patm_witness:
  "P_v_sat 440.33 = Inr (Pa_to_psi (exp (ln_P_w 500))) \<and>
   Patm \<le> Pa_to_psi (exp (ln_P_w 500)) \<and>
   W_sat 440.33 = Inr (0.62198 * Pa_to_psi (exp (ln_P_w 500))
                        / (14.696 - Pa_to_psi (exp (ln_P_w 500)))) \<and>
   0.62198 * Pa_to_psi (exp (ln_P_w 500)) / (14.696 - Pa_to_psi (exp (ln_P_w 500))) < 0"
proof -
  have le: "Patm \<le> Pa_to_psi (exp (ln_P_w 500))" using P_44033_gt by simp
  show ?thesis
    using W_sat_at_or_above_Patm [OF P_v_sat_44033 le] P_v_sat_44033 P_44033_gt by auto
qed

subsection \<open>The variable-cp estimate at equal temperatures\<close>

text \<open>
  In exact arithmetic the estimate at equal temperatures is the saturated humidity
  ratio. The examples of the solver below start from this value.
\<close>

lemma Cp_diff_bounds:
  assumes "-148 \<le> T" "T \<le> 200"
  shows "0 \<le> Cp_water T - Cp_vapor T" "Cp_water T - Cp_vapor T \<le> 1"
proof -
  define t where "t = degF_to_degC T"
  define s where "s = t * t"
  have t: "-100 \<le> t" "t \<le> 94" using assms by (simp_all add: t_def degF_to_degC_def)
  have "0 \<le> (t + 100) * (94 - t)" using t by (intro mult_nonneg_nonneg) auto
  then have sq: "s \<le> 9400 - 6 * t" by (simp add: algebra_simps s_def)
  have sq0: "0 \<le> s" by (simp add: s_def)
  have eq: "Cp_water T - Cp_vapor T
      = (0.0249 * s - 1.9234 * t + 2346.9) * 0.001 * (1000 * 0.45359237 * (5 / 9) / 1055.056)"
    by (simp add: Cp_water_def Cp_vapor_def Let_def kJ_kgK_to_Btu_lbF_def t_def s_def
        power2_eq_square algebra_simps)
  show "0 \<le> Cp_water T - Cp_vapor T" unfolding eq using t sq0 by simp
  show "Cp_water T - Cp_vapor T \<le> 1" unfolding eq using t sq by simp
qed

lemma W0_denominator_nonzero:
  assumes "-148 \<le> T" "T \<le> 200"
  shows "h_fg + Cp_vapor T * T - Cp_water T * T \<noteq> 0"
proof -
  define x where "x = Cp_water T - Cp_vapor T"
  have x: "0 \<le> x" "x \<le> 1" using Cp_diff_bounds [OF assms] by (simp_all add: x_def)
  have "x * T \<le> 200"
  proof (cases "0 \<le> T")
    case True
    then have "x * T \<le> 1 * 200" using x assms by (intro mult_mono) auto
    then show ?thesis by simp
  next
    case False
    then have "x * T \<le> 0" using x by (simp add: mult_nonneg_nonpos)
    then show ?thesis by simp
  qed
  moreover have "h_fg + Cp_vapor T * T - Cp_water T * T = h_fg - x * T"
    by (simp add: x_def algebra_simps)
  ultimately show ?thesis by (simp add: h_fg_def)
qed

lemma W0_diagonal:
  assumes "-148 \<le> T_db" and "T_db \<le> 200"
  shows "W0 T_db T_db = W_sat T_db"
proof (cases "W_sat T_db")
  case (Inl e)
  then show ?thesis by (simp add: W0_def Let_def)
next
  case (Inr Ws)
  have nz: "h_fg + Cp_vapor T_db * T_db - Cp_water T_db * T_db \<noteq> 0"
    by (rule W0_denominator_nonzero [OF assms])
  define b where "b = h_fg + Cp_vapor T_db * T_db - Cp_water T_db * T_db"
  have a: "(h_fg - (Cp_water T_db - Cp_vapor T_db) * T_db) * Ws
             - Cp_dry_air T_db T_db * (T_db - T_db) = b * Ws"
    by (simp add: algebra_simps b_def)
  have "W0 T_db T_db =
          py_div ((h_fg - (Cp_water T_db - Cp_vapor T_db) * T_db) * Ws
                    - Cp_dry_air T_db T_db * (T_db - T_db)) b"
    using Inr unfolding W0_def Let_def b_def by simp
  also have "\<dots> = py_div (b * Ws) b" by (simp only: a)
  also have "\<dots> = Inr Ws" using nz by (simp add: py_div_def b_def)
  finally show ?thesis using Inr by simp
qed

lemma W0_6233: "W0 62.33 62.33 = W_sat 62.33"
  by (rule W0_diagonal) simp_all

subsection \<open>The constant-cp estimate and the global name it reads\<close>

lemma W_sat_between:
  assumes "40 \<le> T" "T \<le> 100"
  shows "W_sat T = py_div (MMR * Pa_to_psi (exp (ln_P_w (degF_to_K T))))
                          (Patm - Pa_to_psi (exp (ln_P_w (degF_to_K T))))"
proof -
  have "0 < degF_to_K T" using assms by (simp add: degF_to_K_def)
  then show ?thesis using assms by (simp add: W_sat_def P_v_sat_def P_w_sat_pos)
qed

lemma W_sat_45_50:
  "\<exists>a b. W_sat 45 = Inr a \<and> W_sat 50 = Inr b \<and> a < b"
proof -
  define p where "p = Pa_to_psi (exp (ln_P_w (degF_to_K 45)))"
  define q where "q = Pa_to_psi (exp (ln_P_w (degF_to_K 50)))"
  have pq: "p < q" unfolding p_def q_def by (rule P_w_sat_strict_mono_aux) simp_all
  have p0: "0 < p" unfolding p_def by (rule Pa_to_psi_pos)
  have "ln_P_w (degF_to_K 50) \<le> 10" using ln_P_w_50F by (simp add: degF_to_K_def)
  then have q9: "q \<le> 9" unfolding q_def by (rule Pa_to_psi_exp_le)
  have a: "W_sat 45 = Inr (MMR * p / (Patm - p))"
    using W_sat_between [of 45] pq q9 by (simp add: p_def py_div_def Patm_def)
  have b: "W_sat 50 = Inr (MMR * q / (Patm - q))"
    using W_sat_between [of 50] q9 by (simp add: q_def py_div_def Patm_def)
  have "p * (Patm - q) < q * (Patm - p)" using pq by (simp add: Patm_def algebra_simps)
  then have "p / (Patm - p) < q / (Patm - q)"
    using pq q9 by (simp add: Patm_def field_simps)
  then have "MMR * (p / (Patm - p)) < MMR * (q / (Patm - q))"
    by (intro mult_strict_left_mono) (simp_all add: MMR_def)
  then have "MMR * p / (Patm - p) < MMR * q / (Patm - q)" by simp
  then show ?thesis using a b by blast
qed

lemma W1_unbound: "W1 \<lparr>Twb = None\<rparr> T_db T_wb = Inl NameError"
  by (simp add: W1_def)

lemma W1_bound_65_50:
  assumes "W_sat t = Inr Ws"
  shows "W1 \<lparr>Twb = Some t\<rparr> 65 50 = Inr ((1042.5 * Ws - 3.6) / 1049.265)"
  using assms by (simp add: W1_def Let_def py_div_def h_fg_def)

lemma constant_cp_65_50:
  assumes "W_sat 50 = Inr Ws"
  shows "estimate_humidity_ratio_constant_cp 65 50 = Inr ((1042.5 * Ws - 3.6) / 1049.265)"
  using assms by (simp add: estimate_humidity_ratio_constant_cp_def py_div_def h_fg_def)

text \<open>
  Claim C3 says that the result of \<open>W1\<close> depends on its two arguments only and that the
  saturated humidity ratio is taken at its own wet-bulb argument. The code reads the
  global \<open>Twb\<close> instead. Called with 65 F and 50 F, \<open>W1\<close> raises \<open>NameError\<close> while
  \<open>Twb\<close> is unbound; with \<open>Twb\<close> bound to 45 F, as in the notebook, its result differs from
  the result with \<open>Twb\<close> bound to 50 F, and from the constant-cp estimate of the
  specification at 65 F and 50 F.
\<close>

theorem W1_reads_global_Twb:
  "W1 \<lparr>Twb = None\<rparr> 65 50 = Inl NameError \<and>
   W1 \<lparr>Twb = Some 45\<rparr> 65 50 \<noteq> W1 \<lparr>Twb = Some 50\<rparr> 65 50 \<and>
   W1 \<lparr>Twb = Some 45\<rparr> 65 50 \<noteq> estimate_humidity_ratio_constant_cp 65 50"
proof -
  obtain a b where a: "W_sat 45 = Inr a" and b: "W_sat 50 = Inr b" and ab: "a < b"
    using W_sat_45_50 by blast
  have "(1042.5 * a - 3.6) / 1049.265 \<noteq> (1042.5 * b - 3.6) / 1049.265"
    using ab by simp
  then show ?thesis
    using W1_bound_65_50 [OF a] W1_bound_65_50 [OF b] constant_cp_65_50 [OF b] W1_unbound
    by simp
qed

section \<open>The wet-bulb solver\<close>

text \<open>
  Claim C8. Whenever the loop guard holds, the condition of the conditional expression
  holds too: the factor is one minus \<open>deltaW\<close>, and one pass of the loop multiplies the
  trial temperature by it. The branch with one plus \<open>deltaW\<close> is never taken.
\<close>

theorem else_branch_dead:
  assumes "epsilon < \<bar>w0 - w\<bar>"
  shows "step_factor w w0 = (case deltaW w w0 of Inl e \<Rightarrow> Inl e | Inr d \<Rightarrow> Inr (1 - d)) \<and>
         T_wb_loop T_db w T_wbm w0 =
           (case deltaW w w0 of
              Inl e \<Rightarrow> Some (Inl e)
            | Inr d \<Rightarrow>
                (case W0 T_db (T_wbm * (1 - d)) of
                   Inl e \<Rightarrow> Some (Inl e)
                 | Inr w0' \<Rightarrow> T_wb_loop T_db w (T_wbm * (1 - d)) w0'))"
proof -
  have pos: "0 < \<bar>w0 - w\<bar>" using assms epsilon_pos by linarith
  then have sf: "step_factor w w0 = (case deltaW w w0 of Inl e \<Rightarrow> Inl e | Inr d \<Rightarrow> Inr (1 - d))"
    unfolding step_factor_def by (simp only: if_True)
  have "T_wb_loop T_db w T_wbm w0 =
          (case step_factor w w0 of
             Inl e \<Rightarrow> Some (Inl e)
           | Inr k \<Rightarrow>
               (case W0 T_db (T_wbm * k) of
                  Inl e \<Rightarrow> Some (Inl e)
                | Inr w0' \<Rightarrow> T_wb_loop T_db w (T_wbm * k) w0'))"
    using assms by (subst T_wb_loop.simps) simp
  then show ?thesis
    by (simp add: sf split: sum.splits)
qed

theorem else_branch_dead_witness:
  "epsilon < \<bar>(0.002::real) - 0.001\<bar> \<and> step_factor 0.001 0.002 = Inr (1 - 0.01)"
  using else_branch_dead [of "0.002" "0.001" 65 65]
  by (simp add: epsilon_def deltaW_def py_div_def)

subsection \<open>Relative humidity zero\<close>

lemma T_wb_iter_zero_target:
  assumes "W0 T_db T_db = Inr w0" and "epsilon < \<bar>w0\<bar>"
  shows "W T_db 0 = Inr 0" and "T_wb_iter T_db 0 = Some (Inl ZeroDivisionError)"
proof -
  show w: "W T_db 0 = Inr 0" using W0_Inr_K_pos [OF assms(1)] by (rule W_RH_zero)
  have pos: "0 < \<bar>w0\<bar>" using assms(2) epsilon_pos by linarith
  then have "step_factor 0 w0 = Inl ZeroDivisionError"
    by (simp add: step_factor_def deltaW_def py_div_def)
  then have "T_wb_loop T_db 0 T_db w0 = Some (Inl ZeroDivisionError)"
    using assms(2) by (subst T_wb_loop.simps) simp
  then show "T_wb_iter T_db 0 = Some (Inl ZeroDivisionError)"
    using w assms(1) by (simp add: T_wb_iter_def)
qed

lemma W0_6233_value:
  "W0 62.33 62.33 = Inr (projr (W_sat 62.33))" "epsilon < \<bar>projr (W_sat 62.33)\<bar>"
proof -
  show "W0 62.33 62.33 = Inr (projr (W_sat 62.33))"
    using W0_6233 W_sat_6233 by simp
  have "0.000004 < projr (W_sat 62.33)"
    using W_sat_value_gt [OF Pa_to_psi_exp_bounds [OF ln_P_w_290]] W_sat_6233 by simp
  then show "epsilon < \<bar>projr (W_sat 62.33)\<bar>" unfolding epsilon_def by linarith
qed

text \<open>
  Claim C10. With relative humidity 0 the target humidity ratio is exactly 0. If the
  initial estimate \<open>W0 T_db T_db\<close> is a number of magnitude above the tolerance, the
  solver enters the loop, and the first evaluation of \<open>deltaW\<close> divides by that zero:
  \<open>T_wb_iter\<close> raises \<open>ZeroDivisionError\<close>.
\<close>

theorem T_wb_iter_RH_zero:
  assumes "W0 T_db T_db = Inr w0" and "epsilon < \<bar>w0\<bar>"
  shows "W T_db 0 = Inr 0 \<and> T_wb_iter T_db 0 = Some (Inl ZeroDivisionError)"
  using T_wb_iter_zero_target [OF assms] by simp

theorem T_wb_iter_RH_zero_witness:
  "W0 62.33 62.33 = Inr (projr (W_sat 62.33)) \<and> epsilon < \<bar>projr (W_sat 62.33)\<bar> \<and>
   T_wb_iter 62.33 0 = Some (Inl ZeroDivisionError)"
  using T_wb_iter_RH_zero [OF W0_6233_value] W0_6233_value by simp

subsection \<open>The solver against the algorithm of the specification\<close>

lemma T_wb_loop_le_spec:
  assumes "T_wb_loop T_db w t w0 = Some y"
  shows "solve_wet_bulb_loop T_db w t w0 = Some y"
proof (rule T_wb_loop.raw_induct
    [where P = "\<lambda>a b c d y. solve_wet_bulb_loop a b c d = Some y", OF _ assms])
  fix f :: "real \<Rightarrow> real \<Rightarrow> real \<Rightarrow> real \<Rightarrow> (error + real) option"
    and a b c d r
  assume IH: "\<And>a b c d r. f a b c d = Some r \<Longrightarrow> solve_wet_bulb_loop a b c d = Some r"
    and step: "(if epsilon < \<bar>d - b\<bar>
                then case step_factor b d of
                       Inl e \<Rightarrow> Some (Inl e)
                     | Inr k \<Rightarrow>
                         (case W0 a (c * k) of
                            Inl e \<Rightarrow> Some (Inl e)
                          | Inr w0' \<Rightarrow> f a b (c * k) w0')
                else Some (Inr c)) = Some r"
  show "solve_wet_bulb_loop a b c d = Some r"
    using step IH
    by (subst solve_wet_bulb_loop.simps)
       (auto simp: step_factor_def deltaW_def Let_def abs_minus_commute
             split: sum.splits if_splits)
qed

lemma spec_le_T_wb_loop:
  assumes "solve_wet_bulb_loop T_db w t w0 = Some y"
  shows "T_wb_loop T_db w t w0 = Some y"
proof (rule solve_wet_bulb_loop.raw_induct
    [where P = "\<lambda>a b c d y. T_wb_loop a b c d = Some y", OF _ assms])
  fix f :: "real \<Rightarrow> real \<Rightarrow> real \<Rightarrow> real \<Rightarrow> (error + real) option"
    and a b c d r
  assume IH: "\<And>a b c d r. f a b c d = Some r \<Longrightarrow> T_wb_loop a b c d = Some r"
    and step: "(if epsilon < \<bar>b - d\<bar> then
        (case py_div \<bar>b - d\<bar> b of
           Inl e \<Rightarrow> Some (Inl e)
         | Inr q \<Rightarrow>
             (let delta = q / 100;
                  T_wb_trial' = (if \<bar>b - d\<bar> > 0
                                 then c * (1 - delta)
                                 else c * (1 + delta))
              in case W0 a T_wb_trial' of
                   Inl e \<Rightarrow> Some (Inl e)
                 | Inr W_est' \<Rightarrow> f a b T_wb_trial' W_est'))
      else Some (Inr c)) = Some r"
  show "T_wb_loop a b c d = Some r"
    using step IH
    by (subst T_wb_loop.simps)
       (auto simp: step_factor_def deltaW_def Let_def abs_minus_commute
             split: sum.splits if_splits)
qed

lemma T_wb_loop_eq_spec: "T_wb_loop T_db w t w0 = solve_wet_bulb_loop T_db w t w0"
proof (cases "T_wb_loop T_db w t w0")
  case None
  show ?thesis
  proof (cases "solve_wet_bulb_loop T_db w t w0")
    case None
    then show ?thesis using \<open>T_wb_loop T_db w t w0 = None\<close> by simp
  next
    case (Some y)
    then show ?thesis using spec_le_T_wb_loop [OF Some] by simp
  qed
next
  case (Some y)
  then show ?thesis using T_wb_loop_le_spec [OF Some] by simp
qed

text \<open>
  Claim C1. The solver of the source is the algorithm of the specification: the trial
  value starts at the dry-bulb temperature, the target \<open>W T_db RH\<close> is computed once,
  every pass computes \<open>delta\<close> from the residual and the target, multiplies the trial
  value by one minus \<open>delta\<close> when the residual is positive and by one plus \<open>delta\<close>
  otherwise, recomputes \<open>W0\<close> at the original dry-bulb temperature and the new trial
  value, and the loop runs while the residual exceeds \<open>epsilon\<close>. The two agree on every
  input, in the value returned, in the error raised and in not returning.
\<close>

theorem T_wb_iter_follows_spec: "T_wb_iter T_db RH = solve_wet_bulb T_db RH"
  by (simp add: T_wb_iter_def solve_wet_bulb_def T_wb_loop_eq_spec split: sum.splits)

subsection \<open>No bound on the iterations\<close>




subsection \<open>The solver at 0 F and at 62.33 F\<close>









end
